theory Spec2Isabelle
  imports Complex_Main
begin

section \<open>gandi-ddns: the reconciliation run of \<open>main.py\<close>\<close>

text \<open>
  The development embeds the part of \<open>main.py\<close> that runs after the configuration
  has been loaded: \<open>gandi_req\<close>, \<open>send_notification\<close>, \<open>get_local_ip\<close>,
  \<open>get_domain_data\<close> and the body of \<open>main\<close> from the check of
  \<open>wan_device\<close> on. Every exception of the source is a value of \<open>error\<close>;
  everything the program does to the outside (HTTP requests, shell commands, prints) is
  an \<open>event\<close> of the trace a function returns, in the order the source performs it;
  the outside itself (the provider, the network, the shell) is an \<open>env\<close> over a world
  state \<open>'w\<close> that every call threads through.
\<close>

subsection \<open>Python values\<close>

text \<open>
  What \<open>json.loads\<close> returns. \<open>JNull\<close> is Python's \<open>None\<close>, which is also the
  value \<open>gandi_req\<close> returns when an error body cannot be decoded and the initial
  value of \<open>rec_val\<close>. A \<open>JFloat\<close> carries the exact value of a finite double. A
  \<open>JObj\<close> is a dict, as the list of its items (keys distinct).
\<close>

datatype json =
    JNull
  | JBool bool
  | JInt int
  | JFloat rat
  | JStr string
  | JList "json list"
  | JObj "(string \<times> json) list"

text \<open>Truth value of a Python object, as \<open>assert x\<close>, \<open>if x\<close> and \<open>not x\<close> take it.\<close>

fun truthy :: "json \<Rightarrow> bool" where
  "truthy JNull = False"
| "truthy (JBool b) = b"
| "truthy (JInt n) = (n \<noteq> 0)"
| "truthy (JFloat r) = (r \<noteq> 0)"
| "truthy (JStr s) = (s \<noteq> [])"
| "truthy (JList xs) = (xs \<noteq> [])"
| "truthy (JObj kvs) = (kvs \<noteq> [])"

text \<open>\<open>d.get(k)\<close> on a dict: the value, or \<open>None\<close> when the key is missing.\<close>

definition dict_get :: "(string \<times> json) list \<Rightarrow> string \<Rightarrow> json" where
  "dict_get kvs k = (case map_of kvs k of None \<Rightarrow> JNull | Some v \<Rightarrow> v)"

text \<open>
  \<open>x == s\<close> for a \<open>str\<close> \<open>s\<close>: only an equal string is equal to a string.
  \<open>x == n\<close> for an \<open>int\<close> \<open>n\<close>: numbers compare by value, and \<open>True\<close>,
  \<open>False\<close> are the integers 1 and 0.
\<close>

definition eq_str :: "json \<Rightarrow> string \<Rightarrow> bool" where
  "eq_str x s = (x = JStr s)"

fun eq_int :: "json \<Rightarrow> int \<Rightarrow> bool" where
  "eq_int (JInt m) n = (m = n)"
| "eq_int (JFloat r) n = (r = of_int n)"
| "eq_int (JBool b) n = ((if b then 1 else 0) = n)"
| "eq_int JNull n = False"
| "eq_int (JStr s) n = False"
| "eq_int (JList xs) n = False"
| "eq_int (JObj kvs) n = False"

subsection \<open>Data model\<close>

record Record =
  type :: string
  name :: string
  val :: "string list option"

record Config =
  wan_device :: string
  gandi_api_key :: "string option"
  records :: "(string \<times> Record list) list"
  notify_script :: "string option"

text \<open>
  The value of \<open>record.val\<close> as a Python object. List equality in Python is
  element by element and in order, and a \<open>str\<close> element is equal to an equal
  \<open>str\<close> only, so \<open>rec_val != record.val\<close> is \<open>rec_val \<noteq> val_json (val record)\<close>.
\<close>

definition val_json :: "string list option \<Rightarrow> json" where
  "val_json v = (case v of None \<Rightarrow> JNull | Some xs \<Rightarrow> JList (map JStr xs))"

datatype error =
    AssertionError
  | AttributeError
  | KeyError string
  | TypeError
  | JSONDecodeError
  | HTTPErr nat
  | URLError
  | CalledProcessError
  | SystemExit nat

text \<open>
  The text of an f-string or of a \<open>print\<close>: literal characters and the values
  formatted into it (\<open>str(x)\<close> of each), kept as values.
\<close>

datatype piece =
    Lit string
  | Fmt json
  | Fmt_record Record
  | Fmt_bytes string
  | Fmt_nat nat
  | Fmt_error error

type_synonym fstring = "piece list"

record request =
  url :: fstring
  data :: json
  headers :: "(string \<times> string) list"
  http_method :: string

datatype response =
    Body string
  | HTTPError nat string
  | Raise error

datatype event =
    Http request
  | Shell string
  | Run fstring
  | Print fstring
  | Print_err fstring
  | Notify fstring

text \<open>
  The outside of the program: the value of the environment variable
  \<open>GANDI_APIKEY\<close>, \<open>request.urlopen(req).read().decode()\<close> (a body, an
  \<open>HTTPError\<close> with its code and body, or another exception),
  \<open>subprocess.check_output(cmd, shell=True).decode()\<close>, \<open>subprocess.run\<close> of
  the notify script, and \<open>json.loads\<close> after \<open>decode\<close> (\<open>None\<close> when one of the
  two raises).
\<close>

record 'w env =
  ENV_APIKEY :: "string option"
  urlopen :: "'w \<Rightarrow> request \<Rightarrow> response \<times> 'w"
  check_output :: "'w \<Rightarrow> string \<Rightarrow> (error + string) \<times> 'w"
  run :: "'w \<Rightarrow> fstring \<Rightarrow> 'w"
  loads :: "string \<Rightarrow> json option"

definition HTTP_IP_SOURCE :: string where
  "HTTP_IP_SOURCE = ''https://ifconfig.me''"

subsection \<open>\<open>gandi_req\<close>\<close>

definition truthy_str :: "string option \<Rightarrow> bool" where
  "truthy_str s = (case s of None \<Rightarrow> False | Some k \<Rightarrow> k \<noteq> [])"

text \<open>\<open>ENV_APIKEY or GLOBAL_CONF.gandi_api_key\<close>\<close>

definition api_key :: "'w env \<Rightarrow> Config \<Rightarrow> string option" where
  "api_key e conf = (if truthy_str (ENV_APIKEY e) then ENV_APIKEY e else gandi_api_key conf)"

definition req_headers :: "string \<Rightarrow> (string \<times> string) list" where
  "req_headers k = [(''Content-Type'', ''application/json''), (''X-Api-Key'', k)]"

text \<open>The text of the print for an \<open>HTTPError\<close>.\<close>

definition failed_request :: "fstring \<Rightarrow> nat \<Rightarrow> string \<Rightarrow> fstring" where
  "failed_request u code body =
     [Lit ''failed request to ''] @ u @
     [Lit '' ('', Fmt_nat code, Lit (''):'' @ [CHR 0x0A]), Fmt_bytes body]"

text \<open>
  The request carries \<open>data\<close> as the value that \<open>json.dumps\<close> encodes (\<open>JNull\<close>
  when there is no body). A body of an \<open>HTTPError\<close> is printed and decoded; any
  exception of the decoding is printed and the result is \<open>None\<close>. A body of a
  successful response that does not decode raises out of \<open>gandi_req\<close>, and so does any
  exception of \<open>urlopen\<close> other than \<open>HTTPError\<close>.
\<close>

definition gandi_req ::
  "'w env \<Rightarrow> Config \<Rightarrow> fstring \<Rightarrow> json \<Rightarrow> string \<Rightarrow> 'w \<Rightarrow> (error + json) \<times> event list \<times> 'w" where
  "gandi_req e conf u d m w =
     (case api_key e conf of
        None \<Rightarrow> (Inl AssertionError, [], w)
      | Some k \<Rightarrow>
          (if k = [] then (Inl AssertionError, [], w)
           else
             (let req = \<lparr>url = u, data = d, headers = req_headers k, http_method = m\<rparr>
              in (case urlopen e w req of
                    (Raise err, w1) \<Rightarrow> (Inl err, [Http req], w1)
                  | (HTTPError code body, w1) \<Rightarrow>
                      (case loads e body of
                         Some j \<Rightarrow> (Inr j, [Http req, Print (failed_request u code body)], w1)
                       | None \<Rightarrow>
                           (Inr JNull,
                            [Http req, Print (failed_request u code body),
                             Print [Fmt_error JSONDecodeError]], w1))
                  | (Body body, w1) \<Rightarrow>
                      (case loads e body of
                         None \<Rightarrow> (Inl JSONDecodeError, [Http req], w1)
                       | Some j \<Rightarrow> (Inr j, [Http req], w1))))))"

subsection \<open>\<open>send_notification\<close>\<close>

text \<open>
  \<open>Notify msg\<close> records the call \<open>send_notification(msg)\<close>; the script runs only
  when \<open>notify_script\<close> is set and not empty.
\<close>

definition send_notification :: "'w env \<Rightarrow> Config \<Rightarrow> fstring \<Rightarrow> 'w \<Rightarrow> event list \<times> 'w" where
  "send_notification e conf msg w =
     (if truthy_str (notify_script conf)
      then (case notify_script conf of
              None \<Rightarrow> ([Notify msg], w)
            | Some script \<Rightarrow>
                (let cmd = [Lit (script @ '' \"'')] @ msg @ [Lit ''\"'']
                 in ([Notify msg, Run cmd], run e w cmd)))
      else ([Notify msg], w))"

subsection \<open>\<open>get_local_ip\<close>\<close>

text \<open>
  \<open>re.search(r"inet ((\d{1,3}\.){3}[^/]+)", got).groups()[0]\<close> on ASCII text. After
  \<open>inet \<close>, each of the three groups is a maximal run of one to three digits and a
  dot (a longer run cannot match: the character after three digits would have to be the
  dot); the rest of the match is the longest run of characters other than \<open>/\<close>, which
  must not be empty. The search returns the match at the leftmost position that has one.
\<close>

definition is_digit :: "char \<Rightarrow> bool" where
  "is_digit c = (c \<in> set ''0123456789'')"

definition octet_dot :: "string \<Rightarrow> (string \<times> string) option" where
  "octet_dot s =
     (let ds = takeWhile is_digit s; rest = dropWhile is_digit s
      in if ds \<noteq> [] \<and> length ds \<le> 3
         then (case rest of
                 [] \<Rightarrow> None
               | c # rest' \<Rightarrow> if c = CHR ''.'' then Some (ds @ ''.'', rest') else None)
         else None)"

definition match_inet :: "string \<Rightarrow> string option" where
  "match_inet s =
     (if take 5 s = ''inet ''
      then (case octet_dot (drop 5 s) of
              None \<Rightarrow> None
            | Some (a, s1) \<Rightarrow>
                (case octet_dot s1 of
                   None \<Rightarrow> None
                 | Some (b, s2) \<Rightarrow>
                     (case octet_dot s2 of
                        None \<Rightarrow> None
                      | Some (c, s3) \<Rightarrow>
                          (let t = takeWhile (\<lambda>x. x \<noteq> CHR ''/'') s3
                           in if t = [] then None else Some (a @ b @ c @ t)))))
      else None)"

fun re_search_inet :: "string \<Rightarrow> string option" where
  "re_search_inet [] = None"
| "re_search_inet (c # s) =
     (case match_inet (c # s) of
        Some g \<Rightarrow> Some g
      | None \<Rightarrow> re_search_inet s)"

definition ip_request :: request where
  "ip_request = \<lparr>url = [Lit HTTP_IP_SOURCE], data = JNull, headers = [], http_method = ''GET''\<rparr>"

definition mismatch :: "string \<Rightarrow> string \<Rightarrow> fstring" where
  "mismatch local_ip net_ip = [Lit (''IP mismatch: '' @ local_ip @ '' vs. '' @ net_ip)]"

definition get_local_ip ::
  "'w env \<Rightarrow> Config \<Rightarrow> 'w \<Rightarrow> (error + string) \<times> event list \<times> 'w" where
  "get_local_ip e conf w =
     (if wan_device conf = [] then (Inl AssertionError, [], w)
      else
        let cmd = ''ip addr show dev '' @ wan_device conf;
            (out, w1) = check_output e w cmd
        in case out of
             Inl err \<Rightarrow> (Inl err, [Shell cmd], w1)
           | Inr got \<Rightarrow>
               (case re_search_inet got of
                  None \<Rightarrow> (Inl AttributeError, [Shell cmd], w1)
                | Some local_ip \<Rightarrow>
                    (let (r, w2) = urlopen e w1 ip_request
                     in case r of
                          Raise err \<Rightarrow> (Inl err, [Shell cmd, Http ip_request], w2)
                        | HTTPError code body \<Rightarrow>
                            (Inl (HTTPErr code), [Shell cmd, Http ip_request], w2)
                        | Body net_ip \<Rightarrow>
                            if local_ip \<noteq> net_ip
                            then (let (ev, w3) =
                                        send_notification e conf (mismatch local_ip net_ip) w2
                                  in (Inr local_ip,
                                      [Shell cmd, Http ip_request,
                                       Print (mismatch local_ip net_ip)] @ ev, w3))
                            else (Inr local_ip, [Shell cmd, Http ip_request], w2))))"

subsection \<open>\<open>get_domain_data\<close>\<close>

definition get_domain_data ::
  "'w env \<Rightarrow> Config \<Rightarrow> string \<Rightarrow> 'w \<Rightarrow> (error + json) \<times> event list \<times> 'w" where
  "get_domain_data e conf domain w =
     gandi_req e conf [Lit (''https://dns.api.gandi.net/api/v5/domains/'' @ domain)]
       JNull ''GET'' w"

subsection \<open>The body of the record loop of \<open>main\<close>\<close>

text \<open>Lines 228 to 233: the in-place resolution of the record.\<close>

definition resolve_record :: "string \<Rightarrow> string \<Rightarrow> Record \<Rightarrow> Record" where
  "resolve_record local_ip domain record =
     (let record1 = (if \<not> truthy (val_json (val record))
                     then record\<lparr>val := Some [local_ip]\<rparr> else record)
      in if type record1 = ''PTR''
         then record1\<lparr>name := local_ip @ ''.in-addr.arpa.'', val := Some [domain @ ''.'']\<rparr>
         else record1)"

text \<open>
  Lines 239 to 251: what the loop body does with \<open>record_data\<close>. The result is
  \<open>Inl\<close> for an exception, \<open>Inr (Some rec_val)\<close> when the body goes on to the
  comparison, and \<open>Inr None\<close> for the \<open>continue\<close> of the last branch. \<open>.get\<close>
  exists on a dict only. Assertions are checked, as they are when the interpreter runs
  without \<open>-O\<close>.
\<close>

definition classify :: "Record \<Rightarrow> json \<Rightarrow> error + json option" where
  "classify record record_data =
     (if \<not> truthy record_data then Inl AssertionError
      else case record_data of
             JObj kvs \<Rightarrow>
               if eq_str (dict_get kvs ''rrset_name'') (name record)
               then (case map_of kvs ''rrset_values'' of
                       None \<Rightarrow> Inl (KeyError ''rrset_values'')
                     | Some rec_val \<Rightarrow> Inr (Some rec_val))
               else if eq_int (dict_get kvs ''code'') 404 then Inr (Some JNull)
               else Inr None
           | _ \<Rightarrow> Inl AttributeError)"

definition record_url :: "json \<Rightarrow> Record \<Rightarrow> fstring" where
  "record_url zone_href record = [Fmt zone_href, Lit (''/'' @ name record @ ''/'' @ type record)]"

definition put_data :: "Record \<Rightarrow> json" where
  "put_data record =
     JObj [(''rrset_name'', JStr (name record)),
           (''rrset_type'', JStr (type record)),
           (''rrset_ttl'', JInt 1200),
           (''rrset_values'', val_json (val record))]"

definition updating :: "string \<Rightarrow> Record \<Rightarrow> json \<Rightarrow> fstring" where
  "updating domain record rec_val =
     [Lit (''updating '' @ domain @ '' ''), Fmt_record record, Lit '' from '', Fmt rec_val,
      Lit '' to '', Fmt (val_json (val record))]"

definition unexpected :: "Record \<Rightarrow> json \<Rightarrow> fstring" where
  "unexpected record record_data =
     [Lit ''FAIL: unexpected response for '', Fmt_record record, Lit '', can't update: '',
      Fmt record_data]"

text \<open>Lines 253 to 268: the comparison, the PUT, the print of its result, the notification.\<close>

definition put_if_changed ::
  "'w env \<Rightarrow> Config \<Rightarrow> string \<Rightarrow> json \<Rightarrow> Record \<Rightarrow> json \<Rightarrow> 'w
     \<Rightarrow> (error + unit) \<times> event list \<times> 'w" where
  "put_if_changed e conf domain zone_href record rec_val w =
     (if rec_val \<noteq> val_json (val record)
      then (case gandi_req e conf (record_url zone_href record) (put_data record) ''PUT'' w of
              (Inl err, ev, w1) \<Rightarrow> (Inl err, ev, w1)
            | (Inr ack, ev, w1) \<Rightarrow>
                (let (ev2, w2) = send_notification e conf (updating domain record rec_val) w1
                 in (Inr (), ev @ [Print [Fmt ack]] @ ev2, w2)))
      else (Inr (), [], w))"

text \<open>
  One turn of the loop over \<open>records\<close>. The second component of the result is the
  record as the turn leaves it.
\<close>

definition process_record ::
  "'w env \<Rightarrow> Config \<Rightarrow> string \<Rightarrow> string \<Rightarrow> json \<Rightarrow> Record \<Rightarrow> 'w
     \<Rightarrow> (error + unit) \<times> Record \<times> event list \<times> 'w" where
  "process_record e conf local_ip domain zone_href record0 w =
     (let record = resolve_record local_ip domain record0;
          shown = Print [Fmt_record record]
      in case gandi_req e conf (record_url zone_href record) JNull ''GET'' w of
           (Inl err, ev, w1) \<Rightarrow> (Inl err, record, shown # ev, w1)
         | (Inr record_data, ev, w1) \<Rightarrow>
             (case classify record record_data of
                Inl err \<Rightarrow> (Inl err, record, shown # ev, w1)
              | Inr None \<Rightarrow>
                  (Inr (), record, shown # ev @ [Print (unexpected record record_data)], w1)
              | Inr (Some rec_val) \<Rightarrow>
                  (case put_if_changed e conf domain zone_href record rec_val w1 of
                     (r, ev2, w2) \<Rightarrow> (r, record, shown # ev @ ev2, w2))))"

subsection \<open>The loops of \<open>main\<close>\<close>

text \<open>
  The loops return the records as the run leaves them: a record the loop reached is
  resolved, one it did not reach (an exception ended the run) is as it was.
\<close>

fun for_records ::
  "'w env \<Rightarrow> Config \<Rightarrow> string \<Rightarrow> string \<Rightarrow> json \<Rightarrow> Record list \<Rightarrow> 'w
     \<Rightarrow> (error + unit) \<times> Record list \<times> event list \<times> 'w" where
  "for_records e conf local_ip domain zone_href [] w = (Inr (), [], [], w)"
| "for_records e conf local_ip domain zone_href (record # rest) w =
     (case process_record e conf local_ip domain zone_href record w of
        (Inl err, record', ev, w1) \<Rightarrow> (Inl err, record' # rest, ev, w1)
      | (Inr u, record', ev, w1) \<Rightarrow>
          (case for_records e conf local_ip domain zone_href rest w1 of
             (r, rest', ev2, w2) \<Rightarrow> (r, record' # rest', ev @ ev2, w2)))"

text \<open>\<open>domain_data["zone_records_href"]\<close>: a dict has the key or raises \<open>KeyError\<close>.\<close>

definition subscript :: "json \<Rightarrow> string \<Rightarrow> error + json" where
  "subscript x k =
     (case x of
        JObj kvs \<Rightarrow> (case map_of kvs k of None \<Rightarrow> Inl (KeyError k) | Some v \<Rightarrow> Inr v)
      | _ \<Rightarrow> Inl TypeError)"

fun for_domains ::
  "'w env \<Rightarrow> Config \<Rightarrow> string \<Rightarrow> (string \<times> Record list) list \<Rightarrow> 'w
     \<Rightarrow> (error + unit) \<times> (string \<times> Record list) list \<times> event list \<times> 'w" where
  "for_domains e conf local_ip [] w = (Inr (), [], [], w)"
| "for_domains e conf local_ip ((domain, recs) # rest) w =
     (case get_domain_data e conf domain w of
        (Inl err, ev, w1) \<Rightarrow> (Inl err, (domain, recs) # rest, ev, w1)
      | (Inr domain_data, ev, w1) \<Rightarrow>
          if \<not> truthy domain_data then (Inl AssertionError, (domain, recs) # rest, ev, w1)
          else (case subscript domain_data ''zone_records_href'' of
                  Inl err \<Rightarrow> (Inl err, (domain, recs) # rest, ev, w1)
                | Inr zone_href \<Rightarrow>
                    (case for_records e conf local_ip domain zone_href recs w1 of
                       (Inl err, recs', ev2, w2) \<Rightarrow>
                         (Inl err, (domain, recs') # rest, ev @ ev2, w2)
                     | (Inr u, recs', ev2, w2) \<Rightarrow>
                         (case for_domains e conf local_ip rest w2 of
                            (r, rest', ev3, w3) \<Rightarrow>
                              (r, (domain, recs') # rest', ev @ ev2 @ ev3, w3)))))"

text \<open>
  \<open>main\<close> from line 216 on, with \<open>GLOBAL_CONF\<close> already loaded: the check of
  \<open>wan_device\<close> (\<open>die\<close> prints to stderr and exits with status 1), the local IP,
  the loop over the domains.
\<close>

definition main ::
  "'w env \<Rightarrow> Config \<Rightarrow> 'w
     \<Rightarrow> (error + unit) \<times> (string \<times> Record list) list \<times> event list \<times> 'w" where
  "main e conf w =
     (if wan_device conf = []
      then (Inl (SystemExit 1), records conf,
            [Print_err [Lit ''config default.wan_device must be specified'']], w)
      else (case get_local_ip e conf w of
              (Inl err, ev, w1) \<Rightarrow> (Inl err, records conf, ev, w1)
            | (Inr local_ip, ev, w1) \<Rightarrow>
                (case for_domains e conf local_ip (records conf) w1 of
                   (r, recs', ev2, w2) \<Rightarrow>
                     (r, recs', ev @ [Print [Lit (''Local IP: '' @ local_ip)]] @ ev2, w2))))"

subsection \<open>Reading a trace\<close>

fun requests :: "event list \<Rightarrow> request list" where
  "requests [] = []"
| "requests (Http r # ev) = r # requests ev"
| "requests (x # ev) = requests ev"

fun notifications :: "event list \<Rightarrow> fstring list" where
  "notifications [] = []"
| "notifications (Notify m # ev) = m # notifications ev"
| "notifications (x # ev) = notifications ev"

subsection \<open>The reverse-DNS name, in the words of the specification\<close>

text \<open>
  The specification asks for the name of a PTR record to be the address "reversed into
  in-addr.arpa form": the dot-separated parts of the address in reverse order, followed
  by \<open>.in-addr.arpa.\<close>. This definition follows those words, not the source; it is
  what the name computed by \<open>resolve_record\<close> is compared with.
\<close>

fun split_dots :: "string \<Rightarrow> string list" where
  "split_dots [] = [[]]"
| "split_dots (c # s) =
     (if c = CHR ''.'' then [] # split_dots s
      else (case split_dots s of
              [] \<Rightarrow> [[c]]
            | part # parts \<Rightarrow> (c # part) # parts))"

fun join_dots :: "string list \<Rightarrow> string" where
  "join_dots [] = []"
| "join_dots [part] = part"
| "join_dots (part # parts) = part @ ''.'' @ join_dots parts"

definition spec_reverse_dns :: "string \<Rightarrow> string" where
  "spec_reverse_dns ip = join_dots (rev (split_dots ip)) @ ''.in-addr.arpa.''"

subsection \<open>Example runs\<close>

text \<open>
  An outside for the concrete runs: the provider answers a request by its URL and method
  from a table (a request that is not in the table fails with \<open>URLError\<close>), bodies
  decode by a table, \<open>ip addr show\<close> prints a fixed text, and the world has no state.
\<close>

definition table_env ::
  "((fstring \<times> string) \<times> response) list \<Rightarrow> (string \<times> json) list \<Rightarrow> string \<Rightarrow> unit env" where
  "table_env responses bodies got =
     \<lparr>ENV_APIKEY = None,
      urlopen = (\<lambda>w q. (case map_of responses (url q, http_method q) of
                            None \<Rightarrow> Raise URLError
                          | Some r \<Rightarrow> r, w)),
      check_output = (\<lambda>w cmd. (Inr got, w)),
      run = (\<lambda>w cmd. w),
      loads = map_of bodies\<rparr>"

definition example_conf :: Config where
  "example_conf =
     \<lparr>wan_device = ''enp2s0'', gandi_api_key = Some ''secret'',
      records = [(''example.com'',
                  [\<lparr>type = ''A'', name = ''@'', val = None\<rparr>,
                   \<lparr>type = ''A'', name = ''mail'', val = None\<rparr>])],
      notify_script = Some ''/usr/local/bin/pushover''\<rparr>"

definition example_bodies :: "(string \<times> json) list" where
  "example_bodies =
     [(''{}'', JObj []),
      (''{\"code\": 404}'', JObj [(''code'', JInt 404)]),
      (''{\"code\": 401}'', JObj [(''code'', JInt 401)]),
      (''{\"message\": \"ok\"}'', JObj [(''message'', JStr ''ok'')]),
      (''{\"zone_records_href\": \"https://zone\"}'',
         JObj [(''zone_records_href'', JStr ''https://zone'')]),
      (''{\"rrset_name\": \"@\", \"rrset_values\": [\"20 mx2.\", \"10 mx1.\"]}'',
         JObj [(''rrset_name'', JStr ''@''), (''rrset_values'', JList [JStr ''20 mx2.'', JStr ''10 mx1.''])])]"

definition zone :: json where
  "zone = JStr ''https://zone''"

definition example_got :: string where
  "example_got = ''2: enp2s0: <UP> mtu 1500  inet 5.6.7.8/24 brd 5.6.7.255 scope global enp2s0''"

definition domain_url :: fstring where
  "domain_url = [Lit ''https://dns.api.gandi.net/api/v5/domains/example.com'']"

section \<open>Resolution of a record\<close>

lemma truthy_val_json: "truthy (val_json v) = (\<exists>x xs. v = Some (x # xs))"
  by (cases v) (auto simp: val_json_def neq_Nil_conv)

lemma resolve_record_PTR:
  "type r = ''PTR'' \<Longrightarrow>
     resolve_record ip d r = r\<lparr>name := ip @ ''.in-addr.arpa.'', val := Some [d @ ''.'']\<rparr>"
  by (simp add: resolve_record_def Let_def)

lemma resolve_record_other:
  "type r \<noteq> ''PTR'' \<Longrightarrow>
     resolve_record ip d r = (if truthy (val_json (val r)) then r else r\<lparr>val := Some [ip]\<rparr>)"
  by (simp add: resolve_record_def Let_def)

lemma resolve_record_val: "\<exists>x xs. val (resolve_record ip d r) = Some (x # xs)"
proof (cases "type r = ''PTR''")
  case True
  then show ?thesis by (simp add: resolve_record_PTR)
next
  case False
  then show ?thesis by (auto simp: resolve_record_other truthy_val_json)
qed

lemma process_record_leaves: "fst (snd (process_record e conf ip d z r w)) = resolve_record ip d r"
  by (simp add: process_record_def Let_def split: prod.splits sum.splits option.splits)

text \<open>
  C1. The name of a resolved PTR record is meant to be the reverse-DNS form of the local
  IP, its parts reversed. At the local IP 5.6.7.8 the source gives
  \<open>5.6.7.8.in-addr.arpa.\<close>, the parts in their original order, where the reverse-DNS
  form is \<open>8.7.6.5.in-addr.arpa.\<close>; the values are \<open>["example.com."]\<close> as stated.
\<close>

theorem ptr_name_keeps_octet_order:
  "name (resolve_record ''5.6.7.8'' ''example.com'' \<lparr>type = ''PTR'', name = ''@'', val = None\<rparr>)
     = ''5.6.7.8.in-addr.arpa.''
   \<and> spec_reverse_dns ''5.6.7.8'' = ''8.7.6.5.in-addr.arpa.''
   \<and> val (resolve_record ''5.6.7.8'' ''example.com'' \<lparr>type = ''PTR'', name = ''@'', val = None\<rparr>)
     = Some [''example.com.'']"
  by (simp add: resolve_record_def spec_reverse_dns_def val_json_def)

text \<open>
  C7. A record that is not a PTR record and whose values are unset has, after the
  resolution, the one-element list of the local IP as its values.
\<close>

theorem unset_values_become_local_ip:
  "type r \<noteq> ''PTR'' \<Longrightarrow> val r = None \<Longrightarrow> val (resolve_record ip d r) = Some [ip]"
  by (simp add: resolve_record_other val_json_def)

theorem unset_values_become_local_ip_witness:
  "val (resolve_record ''1.2.3.4'' ''example.com'' \<lparr>type = ''A'', name = ''@'', val = None\<rparr>)
     = Some [''1.2.3.4'']"
  using unset_values_become_local_ip
    [of "\<lparr>type = ''A'', name = ''@'', val = None\<rparr>" "''1.2.3.4''" "''example.com''"]
  by simp

text \<open>
  C8. After the resolution the values of every record are a list with at least one
  element, and the record that a turn of the loop leaves behind is the resolved record:
  nothing after the resolution changes it, whether the turn ends normally, with the
  \<open>continue\<close> or with an exception.
\<close>

theorem resolved_values_nonempty:
  "(\<exists>x xs. val (resolve_record ip d r) = Some (x # xs))
   \<and> fst (snd (process_record e conf ip d z r w)) = resolve_record ip d r
   \<and> (\<exists>x xs. val (fst (snd (process_record e conf ip d z r w))) = Some (x # xs))"
  by (simp add: process_record_leaves resolve_record_val)

text \<open>
  C9. For a PTR record the resolution replaces the name and the values whatever they
  were: the result is the same for every name and every value list the record arrives
  with, the name being the local IP followed by \<open>.in-addr.arpa.\<close> and the values
  the one-element list of the domain followed by a dot.
\<close>

theorem ptr_override_unconditional:
  "type r = ''PTR'' \<Longrightarrow>
     name (resolve_record ip d r) = ip @ ''.in-addr.arpa.''
     \<and> val (resolve_record ip d r) = Some [d @ ''.'']
     \<and> resolve_record ip d (r\<lparr>name := n, val := v\<rparr>) = resolve_record ip d r"
  by (simp add: resolve_record_PTR)

theorem ptr_override_unconditional_witness:
  "name (resolve_record ''5.6.7.8'' ''example.com''
           \<lparr>type = ''PTR'', name = ''mine'', val = Some [''a.example.'', ''b.example.'']\<rparr>)
     = ''5.6.7.8.in-addr.arpa.''
   \<and> val (resolve_record ''5.6.7.8'' ''example.com''
           \<lparr>type = ''PTR'', name = ''mine'', val = Some [''a.example.'', ''b.example.'']\<rparr>)
     = Some [''example.com.'']"
  using ptr_override_unconditional
    [of "\<lparr>type = ''PTR'', name = ''mine'', val = Some [''a.example.'', ''b.example.'']\<rparr>"
        "''5.6.7.8''" "''example.com''"]
  by simp

text \<open>
  C10. A record that is not a PTR record and whose values are the empty list is resolved
  as one whose values are unset: its values become the one-element list of the local IP.
  The values of a resolved record are never the empty list, so the value list that the
  comparison reads and the PUT sends is never empty.
\<close>

theorem empty_values_become_local_ip:
  "type r \<noteq> ''PTR'' \<Longrightarrow> val r = Some [] \<Longrightarrow>
     val (resolve_record ip d r) = Some [ip]
     \<and> resolve_record ip d r = resolve_record ip d (r\<lparr>val := None\<rparr>)
     \<and> val (resolve_record ip' d' r') \<noteq> Some []
     \<and> val_json (val (resolve_record ip' d' r')) \<noteq> JList []"
proof -
  assume a: "type r \<noteq> ''PTR''" "val r = Some []"
  obtain x xs where v: "val (resolve_record ip' d' r') = Some (x # xs)"
    using resolve_record_val by blast
  have 1: "val (resolve_record ip d r) = Some [ip]"
    using a by (simp add: resolve_record_other val_json_def)
  have 2: "resolve_record ip d r = resolve_record ip d (r\<lparr>val := None\<rparr>)"
    using a by (simp add: resolve_record_other val_json_def)
  have 3: "val (resolve_record ip' d' r') \<noteq> Some []"
    using v by simp
  have 4: "val_json (val (resolve_record ip' d' r')) \<noteq> JList []"
    using v by (simp add: val_json_def)
  show ?thesis using 1 2 3 4 by blast
qed

theorem empty_values_become_local_ip_witness:
  "val (resolve_record ''1.2.3.4'' ''example.com'' \<lparr>type = ''A'', name = ''@'', val = Some []\<rparr>)
     = Some [''1.2.3.4'']
   \<and> resolve_record ''1.2.3.4'' ''example.com'' \<lparr>type = ''A'', name = ''@'', val = Some []\<rparr>
     = resolve_record ''1.2.3.4'' ''example.com''
         (\<lparr>type = ''A'', name = ''@'', val = Some []\<rparr>\<lparr>val := None\<rparr>)
   \<and> val (resolve_record ''1.2.3.4'' ''example.com'' \<lparr>type = ''MX'', name = ''@'', val = Some []\<rparr>)
     \<noteq> Some []
   \<and> val_json (val (resolve_record ''1.2.3.4'' ''example.com''
                      \<lparr>type = ''MX'', name = ''@'', val = Some []\<rparr>)) \<noteq> JList []"
  by (rule empty_values_become_local_ip) simp_all

section \<open>Requests and notifications of the client calls\<close>

lemma requests_append: "requests (xs @ ys) = requests xs @ requests ys"
  by (induction xs rule: requests.induct) simp_all

lemma notifications_append: "notifications (xs @ ys) = notifications xs @ notifications ys"
  by (induction xs rule: notifications.induct) simp_all

lemma gandi_req_Raise:
  assumes "api_key e conf = Some k" "k \<noteq> []"
    and "urlopen e w \<lparr>url = u, data = d, headers = req_headers k, http_method = m\<rparr> = (Raise err, w1)"
  shows "gandi_req e conf u d m w
           = (Inl err, [Http \<lparr>url = u, data = d, headers = req_headers k, http_method = m\<rparr>], w1)"
  using assms by (simp add: gandi_req_def)

lemma gandi_req_HTTPError:
  assumes "api_key e conf = Some k" "k \<noteq> []"
    and "urlopen e w \<lparr>url = u, data = d, headers = req_headers k, http_method = m\<rparr>
           = (HTTPError code body, w1)"
  shows "gandi_req e conf u d m w
           = (Inr (case loads e body of None \<Rightarrow> JNull | Some j \<Rightarrow> j),
              [Http \<lparr>url = u, data = d, headers = req_headers k, http_method = m\<rparr>,
               Print (failed_request u code body)]
              @ (case loads e body of None \<Rightarrow> [Print [Fmt_error JSONDecodeError]] | Some j \<Rightarrow> []),
              w1)"
  using assms by (simp add: gandi_req_def split: option.splits)

lemma gandi_req_Body:
  assumes "api_key e conf = Some k" "k \<noteq> []"
    and "urlopen e w \<lparr>url = u, data = d, headers = req_headers k, http_method = m\<rparr> = (Body body, w1)"
  shows "gandi_req e conf u d m w
           = (case loads e body of None \<Rightarrow> Inl JSONDecodeError | Some j \<Rightarrow> Inr j,
              [Http \<lparr>url = u, data = d, headers = req_headers k, http_method = m\<rparr>], w1)"
  using assms by (simp add: gandi_req_def split: option.splits)

lemma gandi_req_no_key:
  "api_key e conf = None \<or> api_key e conf = Some [] \<Longrightarrow>
     gandi_req e conf u d m w = (Inl AssertionError, [], w)"
  by (auto simp: gandi_req_def)

lemma gandi_req_Inr_key:
  assumes "gandi_req e conf u d m w = (Inr j, ev, w1)"
  shows "\<exists>k. api_key e conf = Some k \<and> k \<noteq> []"
  using assms by (auto simp: gandi_req_def split: option.splits if_splits)

lemma gandi_req_requests:
  assumes "api_key e conf = Some k" "k \<noteq> []"
  shows "requests (fst (snd (gandi_req e conf u d m w)))
           = [\<lparr>url = u, data = d, headers = req_headers k, http_method = m\<rparr>]"
  using assms
  by (simp add: gandi_req_def Let_def split: prod.splits response.splits option.splits)

lemma gandi_req_notifications: "notifications (fst (snd (gandi_req e conf u d m w))) = []"
  by (simp add: gandi_req_def Let_def split: prod.splits response.splits option.splits)

lemma send_notification_notifications:
  "send_notification e conf msg w = (ev, w') \<Longrightarrow> notifications ev = [msg]"
  by (auto simp: send_notification_def Let_def split: option.splits if_splits)

lemma send_notification_requests:
  "send_notification e conf msg w = (ev, w') \<Longrightarrow> requests ev = []"
  by (auto simp: send_notification_def Let_def split: option.splits if_splits)

lemma classify_skip:
  "classify r x = Inr None \<longleftrightarrow>
     (\<exists>kvs. x = JObj kvs \<and> kvs \<noteq> [] \<and> dict_get kvs ''rrset_name'' \<noteq> JStr (name r)
        \<and> \<not> eq_int (dict_get kvs ''code'') 404)"
  by (cases x) (auto simp: classify_def eq_str_def split: option.splits)

lemma classify_live:
  "classify r x = Inr (Some live) \<longleftrightarrow>
     (\<exists>kvs. x = JObj kvs \<and> kvs \<noteq> [] \<and>
        (dict_get kvs ''rrset_name'' = JStr (name r) \<and> map_of kvs ''rrset_values'' = Some live
         \<or> dict_get kvs ''rrset_name'' \<noteq> JStr (name r) \<and> eq_int (dict_get kvs ''code'') 404
             \<and> live = JNull))"
  by (cases x) (auto simp: classify_def eq_str_def split: option.splits)

section \<open>One turn of the record loop\<close>

lemma put_if_changed_same:
  "live = val_json (val r) \<Longrightarrow> put_if_changed e conf d z r live w = (Inr (), [], w)"
  by (simp add: put_if_changed_def)

lemma put_if_changed_requests:
  assumes "api_key e conf = Some k" "k \<noteq> []"
  shows "requests (fst (snd (put_if_changed e conf d z r live w)))
           = (if live = val_json (val r) then []
              else [\<lparr>url = record_url z r, data = put_data r, headers = req_headers k,
                      http_method = ''PUT''\<rparr>])"
proof (cases "live = val_json (val r)")
  case True
  then show ?thesis by (simp add: put_if_changed_same)
next
  case False
  obtain res ev w1 where g: "gandi_req e conf (record_url z r) (put_data r) ''PUT'' w = (res, ev, w1)"
    by (metis prod_cases3)
  have "requests ev = [\<lparr>url = record_url z r, data = put_data r, headers = req_headers k,
                      http_method = ''PUT''\<rparr>]"
    using gandi_req_requests [OF assms, of "record_url z r" "put_data r" "''PUT''" w] g by simp
  then show ?thesis
    using False g
    by (cases res)
       (auto simp: put_if_changed_def requests_append split: prod.splits
          dest: send_notification_requests)
qed

lemma put_if_changed_notifications:
  assumes "api_key e conf = Some k" "k \<noteq> []"
  shows "notifications (fst (snd (put_if_changed e conf d z r live w)))
           = (if live = val_json (val r) then []
              else (case urlopen e w \<lparr>url = record_url z r, data = put_data r,
                                       headers = req_headers k, http_method = ''PUT''\<rparr> of
                      (Raise err, w1) \<Rightarrow> []
                    | (HTTPError code body, w1) \<Rightarrow> [updating d r live]
                    | (Body body, w1) \<Rightarrow>
                        (case loads e body of None \<Rightarrow> [] | Some ack \<Rightarrow> [updating d r live])))"
proof (cases "live = val_json (val r)")
  case True
  then show ?thesis by (simp add: put_if_changed_same)
next
  case False
  let ?q = "\<lparr>url = record_url z r, data = put_data r, headers = req_headers k,
              http_method = ''PUT''\<rparr>"
  obtain out w1 where u: "urlopen e w ?q = (out, w1)"
    by (metis prod.exhaust)
  show ?thesis
  proof (cases out)
    case (Body body)
    with u False assms show ?thesis
      by (cases "loads e body")
         (auto simp: put_if_changed_def gandi_req_Body notifications_append split: prod.splits
            dest: send_notification_notifications)
  next
    case (HTTPError code body)
    with u False assms show ?thesis
      by (cases "loads e body")
         (auto simp: put_if_changed_def gandi_req_HTTPError notifications_append
            split: prod.splits dest: send_notification_notifications)
  next
    case (Raise err)
    with u False assms show ?thesis
      by (simp add: put_if_changed_def gandi_req_Raise)
  qed
qed


lemma process_record_skip:
  assumes "gandi_req e conf (record_url z (resolve_record ip d r)) JNull ''GET'' w = (Inr x, ev, w1)"
    and "classify (resolve_record ip d r) x = Inr None"
  shows "process_record e conf ip d z r w
           = (Inr (), resolve_record ip d r,
              Print [Fmt_record (resolve_record ip d r)] # ev
                @ [Print (unexpected (resolve_record ip d r) x)], w1)"
  using assms by (simp add: process_record_def Let_def)

lemma process_record_live:
  assumes "gandi_req e conf (record_url z (resolve_record ip d r)) JNull ''GET'' w = (Inr x, ev, w1)"
    and "classify (resolve_record ip d r) x = Inr (Some live)"
  shows "process_record e conf ip d z r w
           = (case put_if_changed e conf d z (resolve_record ip d r) live w1 of
                (res, ev2, w2) \<Rightarrow>
                  (res, resolve_record ip d r,
                   Print [Fmt_record (resolve_record ip d r)] # ev @ ev2, w2))"
  using assms by (simp add: process_record_def Let_def)

lemma for_records_step:
  assumes "process_record e conf ip d z r w = (Inr (), r', ev, w1)"
  shows "for_records e conf ip d z (r # rest) w
           = (case for_records e conf ip d z rest w1 of
                (res, rest', ev2, w2) \<Rightarrow> (res, r' # rest', ev @ ev2, w2))"
  using assms by simp

text \<open>
  C3. Take a record whose GET returned a non-empty JSON object that the loop body
  classifies: either its \<open>rrset_name\<close> is the resolved name and \<open>live\<close> is its
  \<open>rrset_values\<close>, or the name does not match, its \<open>code\<close> is 404 and \<open>live\<close> is
  \<open>None\<close>. The requests of the turn are the GET and, exactly when \<open>live\<close> is not the
  list of the desired values (the same strings in the same order), one PUT to the same URL
  whose body has the resolved name, the type, the desired values and the TTL 1200.
\<close>

theorem put_iff_values_differ:
  assumes rr: "rr = resolve_record ip d r"
    and key: "api_key e conf = Some k"
    and get: "gandi_req e conf (record_url z rr) JNull ''GET'' w = (Inr (JObj kvs), ev, w1)"
    and ne: "kvs \<noteq> []"
    and live: "dict_get kvs ''rrset_name'' = JStr (name rr) \<and> map_of kvs ''rrset_values'' = Some live
               \<or> dict_get kvs ''rrset_name'' \<noteq> JStr (name rr) \<and> eq_int (dict_get kvs ''code'') 404
                   \<and> live = JNull"
    and desired: "val rr = Some desired"
  shows "requests (fst (snd (snd (process_record e conf ip d z r w))))
           = \<lparr>url = record_url z rr, data = JNull, headers = req_headers k, http_method = ''GET''\<rparr>
             # (if live = JList (map JStr desired) then []
                else [\<lparr>url = record_url z rr,
                        data = JObj [(''rrset_name'', JStr (name rr)),
                                     (''rrset_type'', JStr (type rr)),
                                     (''rrset_ttl'', JInt 1200),
                                     (''rrset_values'', JList (map JStr desired))],
                        headers = req_headers k, http_method = ''PUT''\<rparr>])"
proof -
  have k: "k \<noteq> []"
    using gandi_req_Inr_key [OF get] key by simp
  have c: "classify rr (JObj kvs) = Inr (Some live)"
    using ne live by (simp add: classify_live)
  have g: "requests ev
             = [\<lparr>url = record_url z rr, data = JNull, headers = req_headers k, http_method = ''GET''\<rparr>]"
    using gandi_req_requests [OF key k, of "record_url z rr" JNull "''GET''" w] get by simp
  have p: "requests (fst (snd (put_if_changed e conf d z rr live w1)))
             = (if live = val_json (val rr) then []
                else [\<lparr>url = record_url z rr, data = put_data rr, headers = req_headers k,
                        http_method = ''PUT''\<rparr>])"
    by (rule put_if_changed_requests [OF key k])
  have "requests (fst (snd (snd (process_record e conf ip d z r w))))
          = requests ev @ requests (fst (snd (put_if_changed e conf d z rr live w1)))"
    using process_record_live [of e conf z ip d r w "JObj kvs" ev w1 live] get c rr
    by (simp add: requests_append split: prod.splits)
  then show ?thesis
    using g p desired by (simp add: val_json_def put_data_def)
qed

theorem put_iff_values_differ_witness:
  "requests (fst (snd (snd (process_record
       (table_env [(([Fmt zone, Lit ''/@/MX''], ''GET''),
                      Body ''{\"rrset_name\": \"@\", \"rrset_values\": [\"20 mx2.\", \"10 mx1.\"]}''),
                   (([Fmt zone, Lit ''/@/MX''], ''PUT''), Body ''{\"message\": \"ok\"}'')]
          example_bodies [])
       example_conf ''5.6.7.8'' ''example.com'' zone
       \<lparr>type = ''MX'', name = ''@'', val = Some [''10 mx1.'', ''20 mx2.'']\<rparr> ()))))
     = [\<lparr>url = [Fmt zone, Lit ''/@/MX''], data = JNull, headers = req_headers ''secret'',
          http_method = ''GET''\<rparr>,
        \<lparr>url = [Fmt zone, Lit ''/@/MX''],
          data = JObj [(''rrset_name'', JStr ''@''), (''rrset_type'', JStr ''MX''),
                       (''rrset_ttl'', JInt 1200),
                       (''rrset_values'', JList [JStr ''10 mx1.'', JStr ''20 mx2.''])],
          headers = req_headers ''secret'', http_method = ''PUT''\<rparr>]"
proof -
  let ?e = "table_env [(([Fmt zone, Lit ''/@/MX''], ''GET''),
                      Body ''{\"rrset_name\": \"@\", \"rrset_values\": [\"20 mx2.\", \"10 mx1.\"]}''),
                   (([Fmt zone, Lit ''/@/MX''], ''PUT''), Body ''{\"message\": \"ok\"}'')]
          example_bodies []"
  let ?r = "\<lparr>type = ''MX'', name = ''@'', val = Some [''10 mx1.'', ''20 mx2.'']\<rparr>"
  have rr: "?r = resolve_record ''5.6.7.8'' ''example.com'' ?r"
    by (simp add: resolve_record_def val_json_def)
  have key: "api_key ?e example_conf = Some ''secret''"
    by (simp add: api_key_def table_env_def example_conf_def truthy_str_def)
  have get: "gandi_req ?e example_conf (record_url zone ?r) JNull ''GET'' ()
               = (Inr (JObj [(''rrset_name'', JStr ''@''),
                             (''rrset_values'', JList [JStr ''20 mx2.'', JStr ''10 mx1.''])]),
                  [Http \<lparr>url = record_url zone ?r, data = JNull, headers = req_headers ''secret'',
                          http_method = ''GET''\<rparr>], ())"
    by (simp add: gandi_req_def key) (simp add: table_env_def record_url_def example_bodies_def)
  show ?thesis
    using put_iff_values_differ [OF rr key get, of "JList [JStr ''20 mx2.'', JStr ''10 mx1.'']"
        "[''10 mx1.'', ''20 mx2.'']"]
    by (simp add: dict_get_def record_url_def)
qed


text \<open>Unfolding everything evaluates a concrete run.\<close>

lemmas example_defs =
  table_env_def example_conf_def example_bodies_def zone_def example_got_def domain_url_def

lemmas run_defs =
  main_def get_local_ip_def get_domain_data_def gandi_req_def api_key_def truthy_str_def
  send_notification_def process_record_def resolve_record_def classify_def put_if_changed_def
  subscript_def dict_get_def val_json_def record_url_def put_data_def updating_def
  unexpected_def failed_request_def req_headers_def ip_request_def HTTP_IP_SOURCE_def
  mismatch_def match_inet_def octet_dot_def is_digit_def eq_str_def Let_def

text \<open>
  C5 (as amended). Take a record whose GET returned a non-empty JSON object whose
  \<open>rrset_name\<close> is not the resolved name and whose \<open>code\<close> is not 404. The turn ends
  normally after the print of the failure, which shows the record and the response; its
  only request is the GET, so no PUT is issued; the loop goes on with the next record.
\<close>

theorem unexpected_response_skips:
  assumes rr: "rr = resolve_record ip d r"
    and get: "gandi_req e conf (record_url z rr) JNull ''GET'' w = (Inr (JObj kvs), ev, w1)"
    and ne: "kvs \<noteq> []"
    and nm: "dict_get kvs ''rrset_name'' \<noteq> JStr (name rr)"
    and nf: "\<not> eq_int (dict_get kvs ''code'') 404"
  shows "process_record e conf ip d z r w
           = (Inr (), rr,
              Print [Fmt_record rr] # ev
                @ [Print [Lit ''FAIL: unexpected response for '', Fmt_record rr,
                          Lit '', can't update: '', Fmt (JObj kvs)]], w1)
         \<and> (\<exists>k. requests (fst (snd (snd (process_record e conf ip d z r w))))
                   = [\<lparr>url = record_url z rr, data = JNull, headers = req_headers k,
                        http_method = ''GET''\<rparr>])
         \<and> for_records e conf ip d z (r # rest) w
             = (case for_records e conf ip d z rest w1 of
                  (res, rest', ev2, w2) \<Rightarrow>
                    (res, rr # rest',
                     (Print [Fmt_record rr] # ev
                        @ [Print [Lit ''FAIL: unexpected response for '', Fmt_record rr,
                                  Lit '', can't update: '', Fmt (JObj kvs)]]) @ ev2, w2))"
proof -
  have c: "classify rr (JObj kvs) = Inr None"
    using ne nm nf by (simp add: classify_skip)
  have p: "process_record e conf ip d z r w
             = (Inr (), rr,
                Print [Fmt_record rr] # ev
                  @ [Print [Lit ''FAIL: unexpected response for '', Fmt_record rr,
                            Lit '', can't update: '', Fmt (JObj kvs)]], w1)"
    using process_record_skip [of e conf z ip d r w "JObj kvs" ev w1] get c rr
    by (simp add: unexpected_def)
  obtain k where k: "api_key e conf = Some k" "k \<noteq> []"
    using gandi_req_Inr_key [OF get] by blast
  have g: "requests ev
             = [\<lparr>url = record_url z rr, data = JNull, headers = req_headers k, http_method = ''GET''\<rparr>]"
    using gandi_req_requests [OF k, of "record_url z rr" JNull "''GET''" w] get by simp
  have q: "\<exists>k. requests (fst (snd (snd (process_record e conf ip d z r w))))
                   = [\<lparr>url = record_url z rr, data = JNull, headers = req_headers k,
                        http_method = ''GET''\<rparr>]"
    using p g by (auto simp: requests_append)
  show ?thesis
    using p q for_records_step [OF p, of rest] by simp
qed

theorem unexpected_response_skips_witness:
  "for_records
     (table_env [(([Fmt zone, Lit ''/@/A''], ''GET''), HTTPError 401 ''{\"code\": 401}'')]
        example_bodies [])
     example_conf ''5.6.7.8'' ''example.com'' zone [\<lparr>type = ''A'', name = ''@'', val = None\<rparr>] ()
   = (Inr (), [\<lparr>type = ''A'', name = ''@'', val = Some [''5.6.7.8'']\<rparr>],
      [Print [Fmt_record \<lparr>type = ''A'', name = ''@'', val = Some [''5.6.7.8'']\<rparr>],
       Http \<lparr>url = [Fmt zone, Lit ''/@/A''], data = JNull, headers = req_headers ''secret'',
              http_method = ''GET''\<rparr>,
       Print (failed_request [Fmt zone, Lit ''/@/A''] 401 ''{\"code\": 401}''),
       Print [Lit ''FAIL: unexpected response for '',
              Fmt_record \<lparr>type = ''A'', name = ''@'', val = Some [''5.6.7.8'']\<rparr>,
              Lit '', can't update: '', Fmt (JObj [(''code'', JInt 401)])]], ())"
proof -
  let ?e = "table_env [(([Fmt zone, Lit ''/@/A''], ''GET''), HTTPError 401 ''{\"code\": 401}'')]
              example_bodies []"
  let ?r = "\<lparr>type = ''A'', name = ''@'', val = None\<rparr>"
  let ?rr = "\<lparr>type = ''A'', name = ''@'', val = Some [''5.6.7.8'']\<rparr>"
  have rr: "?rr = resolve_record ''5.6.7.8'' ''example.com'' ?r"
    by (simp add: resolve_record_def val_json_def)
  have key: "api_key ?e example_conf = Some ''secret''"
    by (simp add: api_key_def table_env_def example_conf_def truthy_str_def)
  have get: "gandi_req ?e example_conf (record_url zone ?rr) JNull ''GET'' ()
               = (Inr (JObj [(''code'', JInt 401)]),
                  [Http \<lparr>url = record_url zone ?rr, data = JNull, headers = req_headers ''secret'',
                          http_method = ''GET''\<rparr>,
                   Print (failed_request (record_url zone ?rr) 401 ''{\"code\": 401}'')], ())"
    by (simp add: gandi_req_def key) (simp add: table_env_def record_url_def example_bodies_def)
  show ?thesis
    using unexpected_response_skips [OF rr get, of "[]"]
    by (simp add: dict_get_def record_url_def)
qed

text \<open>
  C5 as stated fails for a response that is an empty JSON object: it has no name and no
  code, yet \<open>assert record_data\<close> raises, the run ends with \<open>AssertionError\<close> and the
  second record is never fetched.
\<close>

theorem empty_response_aborts:
  "dict_get [] ''rrset_name'' \<noteq> JStr ''@''
   \<and> \<not> eq_int (dict_get [] ''code'') 404
   \<and> gandi_req (table_env [(([Fmt zone, Lit ''/@/A''], ''GET''), Body ''{}'')] example_bodies [])
        example_conf [Fmt zone, Lit ''/@/A''] JNull ''GET'' ()
      = (Inr (JObj []),
         [Http \<lparr>url = [Fmt zone, Lit ''/@/A''], data = JNull, headers = req_headers ''secret'',
                 http_method = ''GET''\<rparr>], ())
   \<and> for_records
        (table_env [(([Fmt zone, Lit ''/@/A''], ''GET''), Body ''{}'')] example_bodies [])
        example_conf ''5.6.7.8'' ''example.com'' zone
        [\<lparr>type = ''A'', name = ''@'', val = None\<rparr>, \<lparr>type = ''A'', name = ''mail'', val = None\<rparr>] ()
      = (Inl AssertionError,
         [\<lparr>type = ''A'', name = ''@'', val = Some [''5.6.7.8'']\<rparr>,
          \<lparr>type = ''A'', name = ''mail'', val = None\<rparr>],
         [Print [Fmt_record \<lparr>type = ''A'', name = ''@'', val = Some [''5.6.7.8'']\<rparr>],
          Http \<lparr>url = [Fmt zone, Lit ''/@/A''], data = JNull, headers = req_headers ''secret'',
                 http_method = ''GET''\<rparr>], ())"
  by (simp add: dict_get_def process_record_def resolve_record_def val_json_def gandi_req_def
        api_key_def truthy_str_def table_env_def example_conf_def example_bodies_def
        record_url_def classify_def Let_def)

text \<open>
  C4 (as amended). The notifications of a turn of the record loop: there is one exactly
  when the record was classified, its live values differ from the desired ones (so a PUT
  was issued) and \<open>gandi_req\<close> returned from the PUT, which it does for a success with a
  body that decodes and for every \<open>HTTPError\<close>; the write's result is not inspected.
  The message gives the domain, the record, the live values and the desired values.
\<close>

theorem notification_after_returned_put:
  assumes rr: "rr = resolve_record ip d r"
    and key: "api_key e conf = Some k"
  shows "notifications (fst (snd (snd (process_record e conf ip d z r w))))
           = (case gandi_req e conf (record_url z rr) JNull ''GET'' w of
                (Inl err, ev, w1) \<Rightarrow> []
              | (Inr x, ev, w1) \<Rightarrow>
                  (case classify rr x of
                     Inl err \<Rightarrow> []
                   | Inr None \<Rightarrow> []
                   | Inr (Some live) \<Rightarrow>
                       if live = val_json (val rr) then []
                       else (case urlopen e w1
                                    \<lparr>url = record_url z rr, data = put_data rr,
                                       headers = req_headers k, http_method = ''PUT''\<rparr> of
                               (Raise err, w2) \<Rightarrow> []
                             | (HTTPError code body, w2) \<Rightarrow>
                                 [[Lit (''updating '' @ d @ '' ''), Fmt_record rr, Lit '' from '',
                                   Fmt live, Lit '' to '', Fmt (val_json (val rr))]]
                             | (Body body, w2) \<Rightarrow>
                                 (case loads e body of
                                    None \<Rightarrow> []
                                  | Some ack \<Rightarrow>
                                      [[Lit (''updating '' @ d @ '' ''), Fmt_record rr,
                                        Lit '' from '', Fmt live, Lit '' to '',
                                        Fmt (val_json (val rr))]]))))"
proof -
  obtain res ev w1 where get: "gandi_req e conf (record_url z rr) JNull ''GET'' w = (res, ev, w1)"
    by (metis prod_cases3)
  have nev: "notifications ev = []"
    using gandi_req_notifications [of e conf "record_url z rr" JNull "''GET''" w] get by simp
  show ?thesis
  proof (cases res)
    case (Inl err)
    with get nev rr show ?thesis
      by (simp add: process_record_def Let_def)
  next
    case (Inr x)
    with get have get': "gandi_req e conf (record_url z rr) JNull ''GET'' w = (Inr x, ev, w1)"
      by simp
    have k: "k \<noteq> []"
      using gandi_req_Inr_key [OF get'] key by simp
    show ?thesis
    proof (cases "classify rr x")
      case (Inl err)
      with get' nev rr show ?thesis
        by (simp add: process_record_def Let_def)
    next
      case c: (Inr v)
      show ?thesis
      proof (cases v)
        case None
        with c get' nev rr show ?thesis
          by (simp add: process_record_def Let_def notifications_append)
      next
        case (Some live)
        have p: "notifications (fst (snd (snd (process_record e conf ip d z r w))))
                   = notifications (fst (snd (put_if_changed e conf d z rr live w1)))"
          using process_record_live [of e conf z ip d r w x ev w1 live] get' c Some rr nev
          by (simp add: notifications_append split: prod.splits)
        show ?thesis
          unfolding p put_if_changed_notifications [OF key k]
          using get' c Some
          by (simp add: updating_def split: prod.splits response.splits option.splits)
      qed
    qed
  qed
qed

theorem notification_after_returned_put_witness:
  "notifications (fst (snd (snd (process_record
       (table_env [(([Fmt zone, Lit ''/@/A''], ''GET''), HTTPError 404 ''{\"code\": 404}''),
                   (([Fmt zone, Lit ''/@/A''], ''PUT''), Body ''{\"message\": \"ok\"}'')]
          example_bodies [])
       example_conf ''5.6.7.8'' ''example.com'' zone \<lparr>type = ''A'', name = ''@'', val = None\<rparr> ()))))
     = [[Lit ''updating example.com '',
         Fmt_record \<lparr>type = ''A'', name = ''@'', val = Some [''5.6.7.8'']\<rparr>,
         Lit '' from '', Fmt JNull, Lit '' to '', Fmt (JList [JStr ''5.6.7.8''])]]"
proof -
  let ?e = "table_env [(([Fmt zone, Lit ''/@/A''], ''GET''), HTTPError 404 ''{\"code\": 404}''),
                   (([Fmt zone, Lit ''/@/A''], ''PUT''), Body ''{\"message\": \"ok\"}'')]
          example_bodies []"
  have rr: "\<lparr>type = ''A'', name = ''@'', val = Some [''5.6.7.8'']\<rparr>
              = resolve_record ''5.6.7.8'' ''example.com'' \<lparr>type = ''A'', name = ''@'', val = None\<rparr>"
    by (simp add: resolve_record_def val_json_def)
  have key: "api_key ?e example_conf = Some ''secret''"
    by (simp add: api_key_def table_env_def example_conf_def truthy_str_def)
  show ?thesis
    unfolding notification_after_returned_put [OF rr key, of zone "()"]
    by (simp add: run_defs example_defs)
qed

text \<open>
  C4 as stated fails when the write fails: the PUT is answered by a 403, and the
  notification is emitted all the same.
\<close>

theorem failed_put_is_notified:
  "urlopen (table_env [(([Fmt zone, Lit ''/@/A''], ''GET''), HTTPError 404 ''{\"code\": 404}''),
                       (([Fmt zone, Lit ''/@/A''], ''PUT''), HTTPError 403 ''<html>Forbidden</html>'')]
              example_bodies []) ()
     \<lparr>url = [Fmt zone, Lit ''/@/A''],
        data = JObj [(''rrset_name'', JStr ''@''), (''rrset_type'', JStr ''A''),
                     (''rrset_ttl'', JInt 1200), (''rrset_values'', JList [JStr ''5.6.7.8''])],
        headers = req_headers ''secret'', http_method = ''PUT''\<rparr>
     = (HTTPError 403 ''<html>Forbidden</html>'', ())
   \<and> notifications (fst (snd (snd (process_record
       (table_env [(([Fmt zone, Lit ''/@/A''], ''GET''), HTTPError 404 ''{\"code\": 404}''),
                   (([Fmt zone, Lit ''/@/A''], ''PUT''), HTTPError 403 ''<html>Forbidden</html>'')]
          example_bodies [])
       example_conf ''5.6.7.8'' ''example.com'' zone \<lparr>type = ''A'', name = ''@'', val = None\<rparr> ()))))
     = [[Lit ''updating example.com '',
         Fmt_record \<lparr>type = ''A'', name = ''@'', val = Some [''5.6.7.8'']\<rparr>,
         Lit '' from '', Fmt JNull, Lit '' to '', Fmt (JList [JStr ''5.6.7.8''])]]"
  by (simp add: run_defs example_defs)




section \<open>The whole run\<close>









end
